theory Spec2Isabelle
  imports Main
begin

text \<open>
  The identity layer of a posting service: registration, login and the session check
  (\<open>api/auth/auth.ctrl.js\<close>, in its current and its earlier version), the user model
  with its password and token methods, and the ownership check and the deletion of
  posts (\<open>api/posts/posts.ctrl.js\<close>). Handlers are functions from the request context
  (and the collection they use) to what they raise or the context they leave; the
  database driver, bcrypt and the token library are outside the sources and appear as
  parameters or as models of their behaviour.
\<close>

section \<open>Values, errors and documents\<close>

text \<open>
  What a handler can raise. \<open>ctx.throw(500, e)\<close> raises an HTTP error carrying the
  status; a rejection of the database driver, of bcrypt or of the token signer is a
  \<open>LibraryError\<close>; the other two are the language's own.
\<close>

datatype js_error = ReferenceError | TypeError | LibraryError string | HttpError nat

text \<open>
  A \<open>const\<close> binding is uninitialised until its initialiser has been evaluated; reading
  it before that raises \<open>ReferenceError\<close>.
\<close>

datatype 'a binding = Uninitialized | Initialized 'a

fun read_binding :: "'a binding \<Rightarrow> js_error + 'a" where
  "read_binding Uninitialized = Inl ReferenceError"
| "read_binding (Initialized v) = Inr v"

text \<open>The validation library, as a value that a name can be bound to.\<close>

datatype joi = Joi

text \<open>An ObjectId is kept as its 24-digit hexadecimal text; \<open>toString\<close> returns it.\<close>

datatype objectid = ObjectId string

fun toString :: "objectid \<Rightarrow> string" where
  "toString (ObjectId h) = h"

text \<open>
  An id as the handlers meet it: a string (what a decoded token carries) or an ObjectId
  (what a stored document carries). \<open>canonical\<close> is the conversion of either to a string,
  \<open>strict_eq s v\<close> is \<open>s === v\<close> for a string \<open>s\<close>: values of different types are
  never strictly equal.
\<close>

datatype idval = IdStr string | IdObj objectid

fun canonical :: "idval \<Rightarrow> string" where
  "canonical (IdStr s) = s"
| "canonical (IdObj oid) = toString oid"

fun strict_eq :: "string \<Rightarrow> idval \<Rightarrow> bool" where
  "strict_eq s (IdStr t) = (s = t)"
| "strict_eq s (IdObj oid) = False"

datatype jsval = JStr string | JNum nat

type_synonym json = "(string \<times> jsval) list"

definition delete_key :: "string \<Rightarrow> json \<Rightarrow> json" where
  "delete_key k data = filter (\<lambda>(k', v). k' \<noteq> k) data"

text \<open>
  A document of the users collection: \<open>UserSchema\<close> declares \<open>username\<close> and
  \<open>hashedPassword\<close>, both plain strings with no unique index; the driver adds the id and,
  on saving, the version key.
\<close>

record user =
  user_id :: objectid
  username :: string
  hashedPassword :: "string option"
  version :: "nat option"

text \<open>
  A collection is its documents in insertion order, and whether the database can be
  reached: every driver operation rejects when it cannot.
\<close>

record 'a collection =
  docs :: "'a list"
  online :: bool

definition findOne :: "'a collection \<Rightarrow> ('a \<Rightarrow> bool) \<Rightarrow> js_error + 'a option" where
  "findOne c P = (if online c then Inr (find P (docs c)) else Inl (LibraryError ''MongoError''))"

text \<open>
  Saving a new document inserts it. The only uniqueness the users collection has is the
  one every collection has, on the id.
\<close>

definition save :: "user collection \<Rightarrow> user \<Rightarrow> js_error + (user collection \<times> user)" where
  "save c d =
     (if \<not> online c then Inl (LibraryError ''MongoError'')
      else if list_ex (\<lambda>x. user_id x = user_id d) (docs c) then Inl (LibraryError ''E11000'')
      else (let d' = d\<lparr>version := Some 0\<rparr> in Inr (c\<lparr>docs := docs c @ [d']\<rparr>, d')))"

text \<open>
  The external libraries the user model calls: bcrypt's hash (with its cost) and compare
  (whose stored hash may be undefined), and the keyed hash that signs a token.
\<close>

record claims =
  subjectId :: string
  claim_username :: string
  issuedAt :: nat
  expiresAt :: nat

record lib =
  bcrypt_hash :: "string \<Rightarrow> nat \<Rightarrow> js_error + string"
  bcrypt_compare :: "string \<Rightarrow> string option \<Rightarrow> js_error + bool"
  hmac :: "string \<Rightarrow> claims \<Rightarrow> string"

section \<open>The token codec\<close>

record payload =
  payload_id :: string
  payload_username :: string

datatype timespan = Seconds nat | Minutes nat | Hours nat | Days nat

fun span_seconds :: "timespan \<Rightarrow> nat" where
  "span_seconds (Seconds n) = n"
| "span_seconds (Minutes n) = n * 60"
| "span_seconds (Hours n) = n * 60 * 60"
| "span_seconds (Days n) = n * 60 * 60 * 24"

record sign_options =
  expiresIn :: timespan

record token =
  token_claims :: claims
  token_signature :: string

datatype verify_result = Verified claims | InvalidToken | Expired

text \<open>
  Modelled from the spec: the signing and verification of tokens (the calls into the
  token library, and the session resolver that verifies) are not among the sources. A
  token embeds the claims, with the issue time read from the clock (in seconds) and the
  expiry the issue time plus the requested span, and carries a keyed signature over them.
  Signing refuses an absent or empty secret. Verification classifies: a signature that
  does not match is \<open>InvalidToken\<close>, a token at or past its expiry is \<open>Expired\<close>.
\<close>

definition jwt_sign ::
  "(string \<Rightarrow> claims \<Rightarrow> string) \<Rightarrow> payload \<Rightarrow> string option \<Rightarrow> sign_options \<Rightarrow> nat
     \<Rightarrow> js_error + token" where
  "jwt_sign mac p secret opts now =
     (case secret of
        None \<Rightarrow> Inl (LibraryError ''secretOrPrivateKey must have a value'')
      | Some s \<Rightarrow>
          if s = [] then Inl (LibraryError ''secretOrPrivateKey must have a value'')
          else (let c = \<lparr>subjectId = payload_id p, claim_username = payload_username p,
                          issuedAt = now, expiresAt = now + span_seconds (expiresIn opts)\<rparr>
                in Inr \<lparr>token_claims = c, token_signature = mac s c\<rparr>))"

definition jwt_verify ::
  "(string \<Rightarrow> claims \<Rightarrow> string) \<Rightarrow> token \<Rightarrow> string \<Rightarrow> nat \<Rightarrow> verify_result" where
  "jwt_verify mac tok s now =
     (if token_signature tok \<noteq> mac s (token_claims tok) then InvalidToken
      else if expiresAt (token_claims tok) \<le> now then Expired
      else Verified (token_claims tok))"

text \<open>
  Modelled from the spec: the start of the process (loading the configuration) is not
  among the sources. It reads the signing secret once from the environment and refuses to
  start when the secret is absent or empty. No handler of the sources reads the
  configuration it yields: \<open>generateToken\<close> goes to the environment itself.
\<close>

record config =
  jwt_secret :: string

definition startup :: "(string \<Rightarrow> string option) \<Rightarrow> js_error + config" where
  "startup env =
     (case env ''JWT_SECRET'' of
        None \<Rightarrow> Inl (LibraryError ''JWT_SECRET is not set'')
      | Some s \<Rightarrow> if s = [] then Inl (LibraryError ''JWT_SECRET is not set'')
                  else Inr \<lparr>jwt_secret = s\<rparr>)"

section \<open>The user model\<close>

definition new_User :: "objectid \<Rightarrow> string \<Rightarrow> user" where
  "new_User oid name = \<lparr>user_id = oid, username = name, hashedPassword = None, version = None\<rparr>"

definition setPassword :: "lib \<Rightarrow> user \<Rightarrow> string \<Rightarrow> js_error + user" where
  "setPassword L u password =
     (case bcrypt_hash L password 10 of
        Inl e \<Rightarrow> Inl e
      | Inr hash \<Rightarrow> Inr (u\<lparr>hashedPassword := Some hash\<rparr>))"

definition checkPassword :: "lib \<Rightarrow> user \<Rightarrow> string \<Rightarrow> js_error + bool" where
  "checkPassword L u password = bcrypt_compare L password (hashedPassword u)"

definition findByUsername :: "user collection \<Rightarrow> string \<Rightarrow> js_error + user option" where
  "findByUsername c name = findOne c (\<lambda>d. username d = name)"

definition toJSON :: "user \<Rightarrow> json" where
  "toJSON u =
     [(''_id'', JStr (toString (user_id u))), (''username'', JStr (username u))]
     @ (case hashedPassword u of None \<Rightarrow> [] | Some h \<Rightarrow> [(''hashedPassword'', JStr h)])
     @ (case version u of None \<Rightarrow> [] | Some v \<Rightarrow> [(''__v'', JNum v)])"

definition serialize :: "user \<Rightarrow> json" where
  "serialize u = (let data = toJSON u in delete_key ''hashedPassword'' data)"

text \<open>
  \<open>generateToken\<close> signs the id (as a string) and the username with whatever the process
  environment holds under \<open>JWT_SECRET\<close> at the moment of the call, for seven days.
\<close>

definition generateToken ::
  "lib \<Rightarrow> (string \<Rightarrow> string option) \<Rightarrow> nat \<Rightarrow> user \<Rightarrow> js_error + token" where
  "generateToken L env now u =
     jwt_sign (hmac L)
       \<lparr>payload_id = toString (user_id u), payload_username = username u\<rparr>
       (env ''JWT_SECRET'')
       \<lparr>expiresIn = Days 7\<rparr>
       now"

section \<open>Requests, responses and the context\<close>

text \<open>
  The body of an authentication request, after parsing: each field is a string or absent.
\<close>

record auth_body =
  req_username :: "string option"
  req_password :: "string option"

datatype validation_error = ValidationError string

text \<open>
  Modelled from the spec: the session resolver is not among the sources. It attaches the
  resolved identity, an id and a username, to the request state, where \<open>check\<close> and
  \<open>checkOwnPost\<close> read it as \<open>ctx.state.user\<close>, and leaves the state without a user
  when the request is anonymous.
\<close>

record identity =
  ident_id :: idval
  ident_username :: string

definition identity_json :: "identity \<Rightarrow> json" where
  "identity_json i = [(''_id'', JStr (canonical (ident_id i))), (''username'', JStr (ident_username i))]"

text \<open>
  Modelled from the spec: the Post schema is not among the sources. A post carries an
  embedded owner reference, set at creation, whose id is an ObjectId.
\<close>

record owner_ref =
  owner_id :: objectid
  owner_username :: string

record post =
  post_id :: objectid
  post_title :: string
  post_body :: string
  post_tags :: "string list"
  post_user :: owner_ref

datatype body = JsonBody json | ErrorBody validation_error

record cookie =
  cookie_value :: "token option"
  maxAge :: "nat option"
  httpOnly :: "bool option"

text \<open>
  The context of one request. \<open>status\<close> and \<open>body\<close> are \<open>None\<close> until a handler assigns
  them; \<open>cookies\<close> are the cookies set on the response, in order.
\<close>

record ctx =
  params_id :: string
  request_body :: auth_body
  status :: "nat option"
  body :: "body option"
  cookies :: "(string \<times> cookie) list"
  state_user :: "identity option"
  state_post :: "post option"

definition cookies_set :: "ctx \<Rightarrow> string \<Rightarrow> cookie \<Rightarrow> ctx" where
  "cookies_set c name ck = c\<lparr>cookies := cookies c @ [(name, ck)]\<rparr>"

text \<open>What a caller observes of a finished request.\<close>

definition response :: "ctx \<Rightarrow> nat option \<times> body option \<times> (string \<times> cookie) list" where
  "response c = (status c, body c, cookies c)"

text \<open>A middleware either answers the request or calls the next one.\<close>

datatype mw_result = Respond ctx | Next ctx

section \<open>The authentication handlers\<close>

definition alnum :: "char \<Rightarrow> bool" where
  "alnum ch = (ch \<in> set ''abcdefghijklmnopqrstuvwxyzABCDEFGHIJKLMNOPQRSTUVWXYZ0123456789'')"

text \<open>
  The schema of a registration: \<open>username\<close> a required alphanumeric string of 3 to 20
  characters, \<open>password\<close> a required string (a string rule does not accept the empty
  string). The result is the error, or the two validated fields.
\<close>

definition register_schema :: "auth_body \<Rightarrow> validation_error + (string \<times> string)" where
  "register_schema b =
     (case req_username b of
        None \<Rightarrow> Inl (ValidationError ''username'')
      | Some u \<Rightarrow>
          if u = [] \<or> length u < 3 \<or> 20 < length u \<or> \<not> list_all alnum u
          then Inl (ValidationError ''username'')
          else (case req_password b of
                  None \<Rightarrow> Inl (ValidationError ''password'')
                | Some p \<Rightarrow> if p = [] then Inl (ValidationError ''password'') else Inr (u, p)))"

text \<open>
  The earlier \<open>register\<close> (the one that builds its schema from \<open>Joi\<close>): validate, look
  the username up, answer 409 when it is there, otherwise hash, save and answer with the
  serialized user. Anything thrown inside the \<open>try\<close> is rethrown as a 500. The second
  component is the users collection afterwards.
\<close>

definition register_old ::
  "lib \<Rightarrow> objectid \<Rightarrow> user collection \<Rightarrow> ctx \<Rightarrow> (js_error + ctx) \<times> user collection" where
  "register_old L oid db c =
     (case register_schema (request_body c) of
        Inl err \<Rightarrow> (Inr (c\<lparr>status := Some 400, body := Some (ErrorBody err)\<rparr>), db)
      | Inr (name, password) \<Rightarrow>
          (case findByUsername db name of
             Inl e \<Rightarrow> (Inl (HttpError 500), db)
           | Inr (Some exists) \<Rightarrow> (Inr (c\<lparr>status := Some 409\<rparr>), db)
           | Inr None \<Rightarrow>
               (case setPassword L (new_User oid name) password of
                  Inl e \<Rightarrow> (Inl (HttpError 500), db)
                | Inr u \<Rightarrow>
                    (case save db u of
                       Inl e \<Rightarrow> (Inl (HttpError 500), db)
                     | Inr (db', saved) \<Rightarrow>
                         (Inr (c\<lparr>body := Some (JsonBody (serialize saved))\<rparr>), db')))))"

text \<open>
  The current \<open>register\<close> opens with \<open>const schema = schema.object().keys(...)\<close>. The
  library is imported under the name \<open>joi\<close>; the name \<open>schema\<close> in the initialiser is
  the constant being declared, which is local to the handler and not yet initialised
  when its own initialiser reads it. \<open>register_with\<close> is the body of the handler with
  the state of that binding, at the moment it is read, as a parameter; \<open>register\<close> is
  the handler as written, where the binding is uninitialised. The read is outside the
  \<open>try\<close>, so what it raises is not rethrown as a 500. After saving, this version also
  issues a token and sets it as a cookie; the user has been saved by then, also when
  the signing throws.
\<close>

definition register_with ::
  "joi binding \<Rightarrow> lib \<Rightarrow> (string \<Rightarrow> string option) \<Rightarrow> nat \<Rightarrow> objectid \<Rightarrow> user collection \<Rightarrow> ctx
     \<Rightarrow> (js_error + ctx) \<times> user collection" where
  "register_with schema L env now oid db c =
     (case read_binding schema of
        Inl e \<Rightarrow> (Inl e, db)
      | Inr j \<Rightarrow>
     (case register_schema (request_body c) of
        Inl err \<Rightarrow> (Inr (c\<lparr>status := Some 400, body := Some (ErrorBody err)\<rparr>), db)
      | Inr (name, password) \<Rightarrow>
          (case findByUsername db name of
             Inl e \<Rightarrow> (Inl (HttpError 500), db)
           | Inr (Some exists) \<Rightarrow> (Inr (c\<lparr>status := Some 409\<rparr>), db)
           | Inr None \<Rightarrow>
               (case setPassword L (new_User oid name) password of
                  Inl e \<Rightarrow> (Inl (HttpError 500), db)
                | Inr u \<Rightarrow>
                    (case save db u of
                       Inl e \<Rightarrow> (Inl (HttpError 500), db)
                     | Inr (db', saved) \<Rightarrow>
                         (let c1 = c\<lparr>body := Some (JsonBody (serialize saved))\<rparr> in
                          case generateToken L env now saved of
                            Inl e \<Rightarrow> (Inl (HttpError 500), db')
                          | Inr tok \<Rightarrow>
                              (Inr (cookies_set c1 ''access_token''
                                      \<lparr>cookie_value = Some tok,
                                       maxAge = Some (1000 * 60 * 60 * 24 * 7),
                                       httpOnly = Some True\<rparr>), db')))))))"

definition register ::
  "lib \<Rightarrow> (string \<Rightarrow> string option) \<Rightarrow> nat \<Rightarrow> objectid \<Rightarrow> user collection \<Rightarrow> ctx
     \<Rightarrow> (js_error + ctx) \<times> user collection" where
  "register = register_with Uninitialized"

text \<open>\<open>!x\<close> for a field that is a string or absent: absent and empty are falsy.\<close>

definition falsy :: "string option \<Rightarrow> bool" where
  "falsy x = (x = None \<or> x = Some [])"

text \<open>
  The earlier \<open>login\<close>: 401 when a field is missing, when the lookup finds nobody and
  when the password does not verify; otherwise the serialized user. It only reads the
  collection. Past the first test both fields are strings; the last case of the
  destructuring, a field still absent, is one the first test has already answered.
\<close>

definition login_old :: "lib \<Rightarrow> user collection \<Rightarrow> ctx \<Rightarrow> js_error + ctx" where
  "login_old L db c =
     (let name = req_username (request_body c); password = req_password (request_body c) in
      if falsy name \<or> falsy password then Inr (c\<lparr>status := Some 401\<rparr>)
      else (case (name, password) of
              (Some n, Some p) \<Rightarrow>
                (case findByUsername db n of
                   Inl e \<Rightarrow> Inl (HttpError 500)
                 | Inr None \<Rightarrow> Inr (c\<lparr>status := Some 401\<rparr>)
                 | Inr (Some u) \<Rightarrow>
                     (case checkPassword L u p of
                        Inl e \<Rightarrow> Inl (HttpError 500)
                      | Inr valid \<Rightarrow>
                          if \<not> valid then Inr (c\<lparr>status := Some 401\<rparr>)
                          else Inr (c\<lparr>body := Some (JsonBody (serialize u))\<rparr>)))
            | _ \<Rightarrow> Inr (c\<lparr>status := Some 401\<rparr>)))"

text \<open>The current \<open>login\<close> also issues the token and sets the cookie.\<close>

definition login ::
  "lib \<Rightarrow> (string \<Rightarrow> string option) \<Rightarrow> nat \<Rightarrow> user collection \<Rightarrow> ctx \<Rightarrow> js_error + ctx" where
  "login L env now db c =
     (let name = req_username (request_body c); password = req_password (request_body c) in
      if falsy name \<or> falsy password then Inr (c\<lparr>status := Some 401\<rparr>)
      else (case (name, password) of
              (Some n, Some p) \<Rightarrow>
                (case findByUsername db n of
                   Inl e \<Rightarrow> Inl (HttpError 500)
                 | Inr None \<Rightarrow> Inr (c\<lparr>status := Some 401\<rparr>)
                 | Inr (Some u) \<Rightarrow>
                     (case checkPassword L u p of
                        Inl e \<Rightarrow> Inl (HttpError 500)
                      | Inr valid \<Rightarrow>
                          if \<not> valid then Inr (c\<lparr>status := Some 401\<rparr>)
                          else (let c1 = c\<lparr>body := Some (JsonBody (serialize u))\<rparr> in
                                case generateToken L env now u of
                                  Inl e \<Rightarrow> Inl (HttpError 500)
                                | Inr tok \<Rightarrow>
                                    Inr (cookies_set c1 ''access_token''
                                           \<lparr>cookie_value = Some tok,
                                            maxAge = Some (1000 * 60 * 60 * 24 * 7),
                                            httpOnly = Some True\<rparr>))))
            | _ \<Rightarrow> Inr (c\<lparr>status := Some 401\<rparr>)))"

text \<open>\<open>check\<close> answers with the identity in the request state, 401 when there is none.\<close>

definition check :: "ctx \<Rightarrow> js_error + ctx" where
  "check c =
     (case state_user c of
        None \<Rightarrow> Inr (c\<lparr>status := Some 401\<rparr>)
      | Some u \<Rightarrow> Inr (c\<lparr>body := Some (JsonBody (identity_json u))\<rparr>))"

definition check_old :: "ctx \<Rightarrow> js_error + ctx" where
  "check_old c = Inr c"

section \<open>The post handlers\<close>

text \<open>
  \<open>checkOwnPost\<close> reads \<open>post.user._id.toString()\<close>, then \<open>user._id\<close>, and compares
  them with \<open>!==\<close>. Reading a property of \<open>undefined\<close> raises \<open>TypeError\<close>.
\<close>

definition checkOwnPost :: "ctx \<Rightarrow> js_error + mw_result" where
  "checkOwnPost c =
     (case state_post c of
        None \<Rightarrow> Inl TypeError
      | Some p \<Rightarrow>
          (let lhs = toString (owner_id (post_user p)) in
           case state_user c of
             None \<Rightarrow> Inl TypeError
           | Some u \<Rightarrow>
               if \<not> strict_eq lhs (ident_id u) then Inr (Respond (c\<lparr>status := Some 403\<rparr>))
               else Inr (Next c)))"

text \<open>
  The driver casts the id of \<open>findByIdAndRemove\<close> to an ObjectId and rejects when that
  fails. A string casts when it is 24 hexadecimal digits, read without regard to case, or
  when it is 12 characters long: those are taken as the twelve bytes of the id, whose
  text is then their hexadecimal form. After the cast the driver removes the first post
  with that id, when there is one, and resolves to it.
\<close>

definition is_hex :: "char \<Rightarrow> bool" where
  "is_hex ch = (ch \<in> set ''0123456789abcdefABCDEF'')"

definition lower_hex :: "char \<Rightarrow> char" where
  "lower_hex ch =
     (if ch = CHR ''A'' then CHR ''a'' else if ch = CHR ''B'' then CHR ''b''
      else if ch = CHR ''C'' then CHR ''c'' else if ch = CHR ''D'' then CHR ''d''
      else if ch = CHR ''E'' then CHR ''e'' else if ch = CHR ''F'' then CHR ''f'' else ch)"

definition hex_digit :: "nat \<Rightarrow> char" where
  "hex_digit n = ''0123456789abcdef'' ! (n mod 16)"

definition hex_byte :: "char \<Rightarrow> string" where
  "hex_byte ch = [hex_digit ((of_char ch :: nat) div 16), hex_digit ((of_char ch :: nat) mod 16)]"

definition cast_ObjectId :: "string \<Rightarrow> objectid option" where
  "cast_ObjectId s =
     (if length s = 12 then Some (ObjectId (concat (map hex_byte s)))
      else if length s = 24 \<and> list_all is_hex s then Some (ObjectId (map lower_hex s))
      else None)"

fun remove_first :: "('a \<Rightarrow> bool) \<Rightarrow> 'a list \<Rightarrow> 'a list" where
  "remove_first P [] = []"
| "remove_first P (x # xs) = (if P x then xs else x # remove_first P xs)"

definition findByIdAndRemove ::
  "post collection \<Rightarrow> string \<Rightarrow> js_error + (post option \<times> post collection)" where
  "findByIdAndRemove c i =
     (if \<not> online c then Inl (LibraryError ''MongoError'')
      else (case cast_ObjectId i of
              None \<Rightarrow> Inl (LibraryError ''CastError'')
            | Some oid \<Rightarrow>
                Inr (find (\<lambda>p. post_id p = oid) (docs c),
                     c\<lparr>docs := remove_first (\<lambda>p. post_id p = oid) (docs c)\<rparr>)))"

text \<open>\<open>remove\<close> (the same in both versions of the file).\<close>

definition remove :: "post collection \<Rightarrow> ctx \<Rightarrow> (js_error + ctx) \<times> post collection" where
  "remove posts c =
     (case findByIdAndRemove posts (params_id c) of
        Inl e \<Rightarrow> (Inl (HttpError 500), posts)
      | Inr (removed, posts') \<Rightarrow> (Inr (c\<lparr>status := Some 204\<rparr>), posts'))"

section \<open>Requests in flight\<close>

text \<open>
  A handler runs until it awaits, and other requests run while it waits. The earlier
  \<open>register\<close> awaits three times: the lookup, the hashing and the save. A request in
  flight is the point it has reached, with what it holds there; one step resumes it from
  the operation it awaited: the operation takes effect, and the handler runs on to its
  next await or to its end.
\<close>

datatype task =
    Start ctx
  | AwaitFind ctx string string
  | AwaitHash ctx user string
  | AwaitSave ctx user
  | Done "js_error + ctx"

fun step :: "lib \<Rightarrow> objectid \<Rightarrow> user collection \<Rightarrow> task \<Rightarrow> task \<times> user collection" where
  "step L oid db (Start c) =
     (case register_schema (request_body c) of
        Inl err \<Rightarrow> (Done (Inr (c\<lparr>status := Some 400, body := Some (ErrorBody err)\<rparr>)), db)
      | Inr (name, password) \<Rightarrow> (AwaitFind c name password, db))"
| "step L oid db (AwaitFind c name password) =
     (case findByUsername db name of
        Inl e \<Rightarrow> (Done (Inl (HttpError 500)), db)
      | Inr (Some exists) \<Rightarrow> (Done (Inr (c\<lparr>status := Some 409\<rparr>)), db)
      | Inr None \<Rightarrow> (AwaitHash c (new_User oid name) password, db))"
| "step L oid db (AwaitHash c u password) =
     (case setPassword L u password of
        Inl e \<Rightarrow> (Done (Inl (HttpError 500)), db)
      | Inr u' \<Rightarrow> (AwaitSave c u', db))"
| "step L oid db (AwaitSave c u) =
     (case save db u of
        Inl e \<Rightarrow> (Done (Inl (HttpError 500)), db)
      | Inr (db', saved) \<Rightarrow> (Done (Inr (c\<lparr>body := Some (JsonBody (serialize saved))\<rparr>)), db'))"
| "step L oid db (Done r) = (Done r, db)"

text \<open>
  The requests in flight, each with the id its new document will get, and a schedule:
  the order in which the requests are resumed.
\<close>

fun run ::
  "lib \<Rightarrow> nat list \<Rightarrow> (objectid \<times> task) list \<Rightarrow> user collection
     \<Rightarrow> (objectid \<times> task) list \<times> user collection" where
  "run L [] pool db = (pool, db)"
| "run L (i # sched) pool db =
     (if i < length pool
      then (case step L (fst (pool ! i)) db (snd (pool ! i)) of
              (t', db') \<Rightarrow> run L sched (pool[i := (fst (pool ! i), t')]) db')
      else run L sched pool db)"

text \<open>A registration has succeeded when it ended with a body and no error status.\<close>

fun succeeded :: "task \<Rightarrow> bool" where
  "succeeded (Done (Inr c)) = (status c = None \<and> body c \<noteq> None)"
| "succeeded t = False"

section \<open>Reading the outcomes\<close>

text \<open>The decision of the ownership check: it lets the request through, or answers 403.\<close>

datatype decision = Allow | Forbidden

fun decision_of :: "js_error + mw_result \<Rightarrow> decision option" where
  "decision_of (Inr (Next c)) = Some Allow"
| "decision_of (Inr (Respond c)) = (if status c = Some 403 then Some Forbidden else None)"
| "decision_of (Inl e) = None"

text \<open>
  When the credentials of a login fail, in the words of the specification: a field is
  missing, the lookup finds no user of that name, or the password does not verify
  against the stored hash.
\<close>

definition credentials_fail :: "lib \<Rightarrow> user collection \<Rightarrow> auth_body \<Rightarrow> bool" where
  "credentials_fail L db b =
     (case (req_username b, req_password b) of
        (Some n, Some p) \<Rightarrow>
          n = [] \<or> p = [] \<or>
          (case findByUsername db n of
             Inl e \<Rightarrow> False
           | Inr None \<Rightarrow> True
           | Inr (Some u) \<Rightarrow> checkPassword L u p = Inr False)
      | _ \<Rightarrow> True)"

text \<open>
  When a login fails inside: the lookup rejects, the comparison of the password rejects,
  or, the password having verified, the signing of the token rejects.
\<close>

definition internal_failure ::
  "lib \<Rightarrow> (string \<Rightarrow> string option) \<Rightarrow> nat \<Rightarrow> user collection \<Rightarrow> auth_body \<Rightarrow> bool" where
  "internal_failure L env now db b =
     (case (req_username b, req_password b) of
        (Some n, Some p) \<Rightarrow>
          n \<noteq> [] \<and> p \<noteq> [] \<and>
          (case findByUsername db n of
             Inl e \<Rightarrow> True
           | Inr None \<Rightarrow> False
           | Inr (Some u) \<Rightarrow>
               (case checkPassword L u p of
                  Inl e \<Rightarrow> True
                | Inr valid \<Rightarrow> valid \<and> isl (generateToken L env now u)))
      | _ \<Rightarrow> False)"

definition has_key :: "string \<Rightarrow> json \<Rightarrow> bool" where
  "has_key k data = (k \<in> fst ` set data)"

section \<open>Concrete requests\<close>

text \<open>
  A stand-in for the libraries, to run the handlers on concrete requests: the hash of a
  password is the password behind a fixed prefix, and the keyed hash of the claims is the
  secret followed by the subject and the username.
\<close>

definition demo_lib :: lib where
  "demo_lib =
     \<lparr>bcrypt_hash = (\<lambda>p cost. Inr (''$2b$10$'' @ p)),
      bcrypt_compare =
        (\<lambda>p h. case h of
                  None \<Rightarrow> Inl (LibraryError ''data and hash arguments required'')
                | Some h' \<Rightarrow> Inr (h' = ''$2b$10$'' @ p)),
      hmac = (\<lambda>s c. s @ subjectId c @ claim_username c)\<rparr>"

definition demo_env :: "string \<Rightarrow> string option" where
  "demo_env k = (if k = ''JWT_SECRET'' then Some ''s3cr3t'' else None)"

definition no_env :: "string \<Rightarrow> string option" where
  "no_env k = None"

definition rotated_env :: "string \<Rightarrow> string option" where
  "rotated_env k = (if k = ''JWT_SECRET'' then Some ''r0tated'' else None)"

definition new_ctx :: ctx where
  "new_ctx =
     \<lparr>params_id = [], request_body = \<lparr>req_username = None, req_password = None\<rparr>,
      status = None, body = None, cookies = [], state_user = None, state_post = None\<rparr>"

definition auth_request :: "string \<Rightarrow> string \<Rightarrow> ctx" where
  "auth_request name password =
     new_ctx\<lparr>request_body := \<lparr>req_username = Some name, req_password = Some password\<rparr>\<rparr>"

definition oid1 :: objectid where
  "oid1 = ObjectId ''64b000000000000000000001''"

definition oid2 :: objectid where
  "oid2 = ObjectId ''64b000000000000000000002''"

definition alice :: user where
  "alice = \<lparr>user_id = oid1, username = ''alice'',
            hashedPassword = Some ''$2b$10$pw123456'', version = Some 0\<rparr>"

definition no_users :: "user collection" where
  "no_users = \<lparr>docs = [], online = True\<rparr>"

definition users_alice :: "user collection" where
  "users_alice = \<lparr>docs = [alice], online = True\<rparr>"

definition users_offline :: "user collection" where
  "users_offline = \<lparr>docs = [alice], online = False\<rparr>"

definition bobs_post :: post where
  "bobs_post =
     \<lparr>post_id = ObjectId ''64b0000000000000000000aa'', post_title = ''title'',
      post_body = ''text'', post_tags = [],
      post_user = \<lparr>owner_id = oid2, owner_username = ''bob''\<rparr>\<rparr>"

definition posts_bob :: "post collection" where
  "posts_bob = \<lparr>docs = [bobs_post], online = True\<rparr>"

definition alice2 :: user where
  "alice2 = \<lparr>user_id = oid2, username = ''alice'',
             hashedPassword = Some ''$2b$10$pw123456'', version = Some 0\<rparr>"

definition alice_identity :: identity where
  "alice_identity = \<lparr>ident_id = IdStr ''64b000000000000000000001'', ident_username = ''alice''\<rparr>"

definition bob_identity :: identity where
  "bob_identity = \<lparr>ident_id = IdStr ''64b000000000000000000002'', ident_username = ''bob''\<rparr>"

section \<open>Facts about the handlers\<close>

text \<open>The current \<open>register\<close> raises before it has read the request.\<close>

lemma register_raises: "register L env now oid db c = (Inl ReferenceError, db)"
  by (simp add: register_def register_with_def)

text \<open>
  What the body of \<open>register\<close> does once \<open>schema\<close> can be read, and what the earlier
  \<open>register\<close> does: a known username is answered with 409 and the collection is left
  as it was.
\<close>

lemma register_old_conflict:
  assumes "register_schema (request_body c) = Inr (name, password)"
    and "findByUsername db name = Inr (Some x)"
  shows "register_old L oid db c = (Inr (c\<lparr>status := Some 409\<rparr>), db)"
  using assms by (simp add: register_old_def)

lemma register_with_conflict:
  assumes "register_schema (request_body c) = Inr (name, password)"
    and "findByUsername db name = Inr (Some x)"
  shows "register_with (Initialized Joi) L env now oid db c = (Inr (c\<lparr>status := Some 409\<rparr>), db)"
  using assms by (simp add: register_with_def)

text \<open>
  Once \<open>schema\<close> can be read, a registration that goes through sets the cookie; the
  earlier \<open>register\<close> never sets one.
\<close>

lemma register_with_cookie:
  assumes "register_schema (request_body c) = Inr (name, password)"
    and "findByUsername db name = Inr None"
    and "setPassword L (new_User oid name) password = Inr u"
    and "save db u = Inr (db', saved)"
    and "generateToken L env now saved = Inr tok"
  shows "register_with (Initialized Joi) L env now oid db c
           = (Inr (c\<lparr>body := Some (JsonBody (serialize saved)),
                     cookies := cookies c @ [(''access_token'',
                        \<lparr>cookie_value = Some tok, maxAge = Some 604800000,
                         httpOnly = Some True\<rparr>)]\<rparr>),
              db')"
  using assms by (simp add: register_with_def cookies_set_def)

lemma register_old_no_cookie:
  "register_old L oid db c = (Inr c', db') \<Longrightarrow> cookies c' = cookies c"
  by (auto simp: register_old_def split: sum.splits option.splits prod.splits)

lemma generateToken_present:
  assumes "env ''JWT_SECRET'' = Some s" and "s \<noteq> []"
  shows "generateToken L env t u =
           Inr \<lparr>token_claims =
                  \<lparr>subjectId = toString (user_id u), claim_username = username u,
                   issuedAt = t, expiresAt = t + 604800\<rparr>,
                token_signature =
                  hmac L s \<lparr>subjectId = toString (user_id u), claim_username = username u,
                            issuedAt = t, expiresAt = t + 604800\<rparr>\<rparr>"
  using assms by (simp add: generateToken_def jwt_sign_def Let_def)

lemma generateToken_absent:
  assumes "env ''JWT_SECRET'' = None \<or> env ''JWT_SECRET'' = Some []"
  shows "generateToken L env t u = Inl (LibraryError ''secretOrPrivateKey must have a value'')"
  using assms by (auto simp: generateToken_def jwt_sign_def)

text \<open>
  Two registrations of one name by the earlier \<open>register\<close>, one after the other: the
  first succeeds, the second is answered with 409 and changes nothing.
\<close>

lemma find_snoc:
  "find P (xs @ [x])
     = (case find P xs of None \<Rightarrow> (if P x then Some x else None) | Some y \<Rightarrow> Some y)"
  by (induction xs) auto

lemma save_then_find:
  assumes "save db u = Inr (db', saved)" and "findByUsername db (username u) = Inr None"
  shows "findByUsername db' (username u) = Inr (Some saved)"
  using assms
  by (auto simp: save_def findByUsername_def findOne_def Let_def find_snoc split: if_splits)

lemma setPassword_username: "setPassword L u p = Inr u' \<Longrightarrow> username u' = username u"
  by (auto simp: setPassword_def split: sum.splits)

lemma register_old_twice:
  assumes "register_schema (request_body c1) = Inr (name, p1)"
    and "register_schema (request_body c2) = Inr (name, p2)"
    and "findByUsername db name = Inr None"
    and "setPassword L (new_User oid name) p1 = Inr u"
    and "save db u = Inr (db', saved)"
  shows "register_old L oid db c1 = (Inr (c1\<lparr>body := Some (JsonBody (serialize saved))\<rparr>), db')
       \<and> register_old L oid' db' c2 = (Inr (c2\<lparr>status := Some 409\<rparr>), db')"
proof -
  have n: "username u = name"
    using setPassword_username [OF assms(4)] by (simp add: new_User_def)
  have "findByUsername db' name = Inr (Some saved)"
    using save_then_find [OF assms(5)] assms(3) n by simp
  then show ?thesis
    using assms by (simp add: register_old_def)
qed

text \<open>The age of the cookie, in milliseconds, is the lifetime of the token.\<close>

lemma cookie_age_is_token_lifetime:
  "generateToken L env t u = Inr tok \<Longrightarrow>
     1000 * (expiresAt (token_claims tok) - issuedAt (token_claims tok)) = 1000 * 60 * 60 * 24 * 7"
  by (auto simp: generateToken_def jwt_sign_def Let_def split: option.splits if_splits)

lemma remove_first_absent: "\<not> list_ex P xs \<Longrightarrow> remove_first P xs = xs"
  by (induction xs) auto

lemma find_absent: "\<not> list_ex P xs \<Longrightarrow> find P xs = None"
  by (induction xs) auto

lemma serialize_no_hash: "\<not> has_key ''hashedPassword'' (serialize u)"
  by (auto simp: has_key_def serialize_def delete_key_def)

lemma identity_no_hash: "\<not> has_key ''hashedPassword'' (identity_json i)"
  by (simp add: has_key_def identity_json_def)

lemma register_old_body:
  "register_old L oid db c = (Inr c', db') \<Longrightarrow>
     body c' = body c \<or> (\<exists>e. body c' = Some (ErrorBody e))
       \<or> (\<exists>u. body c' = Some (JsonBody (serialize u)))"
  by (auto simp: register_old_def split: sum.splits option.splits prod.splits)

lemma register_with_body:
  "register_with b L env now oid db c = (Inr c', db') \<Longrightarrow>
     body c' = body c \<or> (\<exists>e. body c' = Some (ErrorBody e))
       \<or> (\<exists>u. body c' = Some (JsonBody (serialize u)))"
  by (auto simp: register_with_def cookies_set_def Let_def
           split: sum.splits option.splits prod.splits)

lemma login_old_body:
  "login_old L db c = Inr c' \<Longrightarrow>
     body c' = body c \<or> (\<exists>u. body c' = Some (JsonBody (serialize u)))"
  by (auto simp: login_old_def Let_def split: sum.splits option.splits if_splits)

lemma login_body:
  "login L env now db c = Inr c' \<Longrightarrow>
     body c' = body c \<or> (\<exists>u. body c' = Some (JsonBody (serialize u)))"
  by (auto simp: login_def cookies_set_def Let_def split: sum.splits option.splits if_splits)

lemma check_body:
  "check c = Inr c' \<Longrightarrow>
     body c' = body c \<or> (\<exists>i. body c' = Some (JsonBody (identity_json i)))"
  by (auto simp: check_def split: option.splits)

text \<open>The three outcomes of a login.\<close>

lemma login_401:
  assumes "status c = None"
  shows "(\<exists>c'. login L env now db c = Inr c' \<and> status c' = Some 401)
           = credentials_fail L db (request_body c)"
  using assms
  by (cases "req_username (request_body c)"; cases "req_password (request_body c)")
     (auto simp: login_def credentials_fail_def falsy_def Let_def cookies_set_def
           split: sum.splits option.splits)

lemma login_500:
  "(login L env now db c = Inl (HttpError 500))
     = internal_failure L env now db (request_body c)"
  by (cases "req_username (request_body c)"; cases "req_password (request_body c)")
     (auto simp: login_def internal_failure_def falsy_def Let_def
           split: sum.splits option.splits)

lemma login_success:
  assumes "\<not> credentials_fail L db (request_body c)"
    and "\<not> internal_failure L env now db (request_body c)"
  shows "\<exists>n u tok. req_username (request_body c) = Some n
           \<and> findByUsername db n = Inr (Some u)
           \<and> generateToken L env now u = Inr tok
           \<and> login L env now db c
               = Inr (c\<lparr>body := Some (JsonBody (serialize u)),
                        cookies := cookies c @ [(''access_token'',
                           \<lparr>cookie_value = Some tok, maxAge = Some 604800000,
                            httpOnly = Some True\<rparr>)]\<rparr>)"
  using assms
  by (cases "req_username (request_body c)"; cases "req_password (request_body c)")
     (auto simp: login_def credentials_fail_def internal_failure_def falsy_def Let_def
                 cookies_set_def
           split: sum.splits option.splits)

text \<open>One request run alone through its four steps is the earlier \<open>register\<close>.\<close>

lemma run_alone:
  "run L [0, 0, 0, 0] [(oid, Start c)] db
     = (case register_old L oid db c of (r, db') \<Rightarrow> ([(oid, Done r)], db'))"
  by (simp add: register_old_def split: sum.splits option.splits prod.splits)

section \<open>Facts about the concrete requests\<close>

lemma cast_demo:
  "cast_ObjectId ''64B0000000000000000000AB'' = Some (ObjectId ''64b0000000000000000000ab'')"
  by (simp add: cast_ObjectId_def lower_hex_def is_hex_def)

lemma cast_twelve:
  "cast_ObjectId ''abcdefghijkl'' = Some (ObjectId ''6162636465666768696a6b6c'')"
  by (simp add: cast_ObjectId_def hex_byte_def hex_digit_def)

text \<open>The ids that cast, and so the removals that do not throw.\<close>

lemma cast_Some_iff:
  "(\<exists>oid. cast_ObjectId s = Some oid) = (length s = 12 \<or> (length s = 24 \<and> list_all is_hex s))"
  by (auto simp: cast_ObjectId_def)

lemma findByIdAndRemove_resolves:
  "(\<exists>removed posts'. findByIdAndRemove posts i = Inr (removed, posts'))
     = (online posts \<and> (length i = 12 \<or> (length i = 24 \<and> list_all is_hex i)))"
  using cast_Some_iff [of i]
  by (auto simp: findByIdAndRemove_def split: option.splits)

lemma schema_alice_anything:
  "register_schema (request_body (auth_request ''alice'' ''anything'')) = Inr (''alice'', ''anything'')"
  by (simp add: register_schema_def auth_request_def new_ctx_def alnum_def)

lemma schema_alice:
  "register_schema (request_body (auth_request ''alice'' ''pw123456'')) = Inr (''alice'', ''pw123456'')"
  by (simp add: register_schema_def auth_request_def new_ctx_def alnum_def)

lemma find_alice: "findByUsername users_alice ''alice'' = Inr (Some alice)"
  by (simp add: findByUsername_def findOne_def users_alice_def alice_def)

lemma find_bob: "findByUsername users_alice ''bob'' = Inr None"
  by (simp add: findByUsername_def findOne_def users_alice_def alice_def)

lemma check_alice_right: "checkPassword demo_lib alice ''pw123456'' = Inr True"
  by (simp add: checkPassword_def demo_lib_def alice_def)

lemma check_alice_wrong: "checkPassword demo_lib alice ''wrong'' = Inr False"
  by (simp add: checkPassword_def demo_lib_def alice_def)

lemma token_rotated:
  "generateToken demo_lib rotated_env 2000 alice
     = Inr \<lparr>token_claims = \<lparr>subjectId = ''64b000000000000000000001'', claim_username = ''alice'',
                             issuedAt = 2000, expiresAt = 606800\<rparr>,
            token_signature = ''r0tated64b000000000000000000001alice''\<rparr>"
  by (simp add: generateToken_def jwt_sign_def rotated_env_def demo_lib_def alice_def oid1_def Let_def)

text \<open>
  Without the secret requests are still handled: a login with a wrong password is
  answered with 401, one with the right password throws a 500 when the token is to be
  signed.
\<close>

lemma login_without_secret:
  "login demo_lib no_env 1000 users_alice (auth_request ''alice'' ''pw123456'') = Inl (HttpError 500)
   \<and> login demo_lib no_env 1000 users_alice (auth_request ''alice'' ''wrong'')
       = Inr ((auth_request ''alice'' ''wrong'')\<lparr>status := Some 401\<rparr>)"
  by (simp add: login_def Let_def falsy_def auth_request_def new_ctx_def find_alice
      check_alice_right check_alice_wrong generateToken_absent no_env_def)

lemma register_old_alice:
  "register_old demo_lib oid1 no_users (auth_request ''alice'' ''pw123456'')
     = (Inr ((auth_request ''alice'' ''pw123456'')\<lparr>body := Some (JsonBody (serialize alice))\<rparr>),
        users_alice)"
  using schema_alice
  by (simp add: register_old_def findByUsername_def findOne_def no_users_def setPassword_def
      demo_lib_def new_User_def save_def Let_def users_alice_def alice_def)

lemma login_old_alice:
  "login_old demo_lib users_alice (auth_request ''alice'' ''pw123456'')
     = Inr ((auth_request ''alice'' ''pw123456'')\<lparr>body := Some (JsonBody (serialize alice))\<rparr>)"
  by (simp add: login_old_def Let_def falsy_def auth_request_def new_ctx_def find_alice
      check_alice_right)

lemma step_start:
  "step demo_lib oid db (Start (auth_request ''alice'' ''pw123456''))
     = (AwaitFind (auth_request ''alice'' ''pw123456'') ''alice'' ''pw123456'', db)"
  by (simp add: schema_alice)

lemma step_find_absent:
  "step demo_lib oid no_users (AwaitFind c ''alice'' p)
     = (AwaitHash c (new_User oid ''alice'') p, no_users)"
  by (simp add: findByUsername_def findOne_def no_users_def)

lemma step_find_present:
  "step demo_lib oid users_alice (AwaitFind c ''alice'' p)
     = (Done (Inr (c\<lparr>status := Some 409\<rparr>)), users_alice)"
  by (simp add: findByUsername_def findOne_def users_alice_def alice_def)

lemma step_hash:
  "step demo_lib oid db (AwaitHash c u ''pw123456'')
     = (AwaitSave c (u\<lparr>hashedPassword := Some ''$2b$10$pw123456''\<rparr>), db)"
  by (simp add: setPassword_def demo_lib_def)

lemma step_save_first:
  "step demo_lib oid1 no_users
      (AwaitSave c ((new_User oid1 ''alice'')\<lparr>hashedPassword := Some ''$2b$10$pw123456''\<rparr>))
     = (Done (Inr (c\<lparr>body := Some (JsonBody (serialize alice))\<rparr>)), users_alice)"
  by (simp add: save_def no_users_def users_alice_def alice_def new_User_def Let_def)

lemma step_save_second:
  "step demo_lib oid2 users_alice
      (AwaitSave c ((new_User oid2 ''alice'')\<lparr>hashedPassword := Some ''$2b$10$pw123456''\<rparr>))
     = (Done (Inr (c\<lparr>body := Some (JsonBody (serialize alice2))\<rparr>)),
        \<lparr>docs = [alice, alice2], online = True\<rparr>)"
  by (simp add: save_def users_alice_def alice_def alice2_def new_User_def Let_def oid1_def
      oid2_def)

lemmas steps =
  step_start step_find_absent step_find_present step_hash step_save_first step_save_second
  step.simps(5)

text \<open>
  Two registrations of the same name, the second resumed only when the first has ended:
  the first succeeds, the second is answered with 409, and one document is stored.
\<close>

lemma register_in_turn:
  "run demo_lib [0, 0, 0, 0, 1, 1, 1, 1]
       [(oid1, Start (auth_request ''alice'' ''pw123456'')),
        (oid2, Start (auth_request ''alice'' ''pw123456''))] no_users
     = ([(oid1, Done (Inr ((auth_request ''alice'' ''pw123456'')
                            \<lparr>body := Some (JsonBody (serialize alice))\<rparr>))),
         (oid2, Done (Inr ((auth_request ''alice'' ''pw123456'')\<lparr>status := Some 409\<rparr>)))],
        users_alice)"
  by (simp del: step.simps add: steps)

section \<open>The ownership check\<close>

text \<open>
  C1, as the code has it. With a post in the request state and an authenticated
  identity, the check allows exactly when the identity's id is the string that the
  owner's id converts to, and answers 403 otherwise; for an id held as a string that is
  canonical equality of the two ids.
\<close>

theorem checkOwnPost_decision:
  assumes "state_post c = Some p" and "state_user c = Some u"
  shows "decision_of (checkOwnPost c)
           = Some (if ident_id u = IdStr (toString (owner_id (post_user p)))
                   then Allow else Forbidden)
       \<and> (\<forall>s. ident_id u = IdStr s \<longrightarrow>
             (decision_of (checkOwnPost c) = Some Allow)
               = (canonical (ident_id u) = canonical (IdObj (owner_id (post_user p))))
             \<and> (decision_of (checkOwnPost c) = Some Forbidden)
               = (canonical (ident_id u) \<noteq> canonical (IdObj (owner_id (post_user p)))))"
proof -
  have eq: "strict_eq (toString (owner_id (post_user p))) (ident_id u)
              = (ident_id u = IdStr (toString (owner_id (post_user p))))"
    by (cases "ident_id u") auto
  have d: "decision_of (checkOwnPost c)
             = Some (if ident_id u = IdStr (toString (owner_id (post_user p)))
                     then Allow else Forbidden)"
    using assms eq by (simp add: checkOwnPost_def Let_def)
  show ?thesis
    using d by auto
qed

text \<open>Bob and Alice ask for Bob's post: Bob is let through, Alice is answered with 403.\<close>

theorem checkOwnPost_decision_witness:
  "state_post (new_ctx\<lparr>state_user := Some bob_identity, state_post := Some bobs_post\<rparr>)
     = Some bobs_post
   \<and> state_user (new_ctx\<lparr>state_user := Some bob_identity, state_post := Some bobs_post\<rparr>)
     = Some bob_identity
   \<and> decision_of (checkOwnPost (new_ctx\<lparr>state_user := Some bob_identity, state_post := Some bobs_post\<rparr>))
     = Some Allow
   \<and> decision_of (checkOwnPost (new_ctx\<lparr>state_user := Some alice_identity, state_post := Some bobs_post\<rparr>))
     = Some Forbidden"
proof -
  let ?b = "new_ctx\<lparr>state_user := Some bob_identity, state_post := Some bobs_post\<rparr>"
  let ?a = "new_ctx\<lparr>state_user := Some alice_identity, state_post := Some bobs_post\<rparr>"
  have b: "state_post ?b = Some bobs_post" and ub: "state_user ?b = Some bob_identity"
    by simp_all
  have a: "state_post ?a = Some bobs_post" and ua: "state_user ?a = Some alice_identity"
    by simp_all
  from checkOwnPost_decision [OF b ub] checkOwnPost_decision [OF a ua]
  show ?thesis
    by (simp add: bob_identity_def alice_identity_def bobs_post_def oid2_def)
qed

text \<open>
  C1 as the specification states it fails for the anonymous identity: asking for Bob's
  post without a user in the request state is not answered with 403.
\<close>

theorem checkOwnPost_anonymous_counterexample:
  "state_user (new_ctx\<lparr>state_post := Some bobs_post\<rparr>) = None
   \<and> checkOwnPost (new_ctx\<lparr>state_post := Some bobs_post\<rparr>) = Inl TypeError
   \<and> decision_of (checkOwnPost (new_ctx\<lparr>state_post := Some bobs_post\<rparr>)) \<noteq> Some Forbidden"
  by (simp add: checkOwnPost_def new_ctx_def)

text \<open>
  Without a user in the request state the check raises, whatever the post. An identity
  whose id were held as an ObjectId is refused even by its own post: only the owner's
  side is converted before the strict comparison.
\<close>

lemma checkOwnPost_anonymous:
  "state_post c = Some p \<Longrightarrow> state_user c = None \<Longrightarrow> checkOwnPost c = Inl TypeError"
  by (simp add: checkOwnPost_def)


lemma checkOwnPost_objectid_identity:
  "state_post c = Some p \<Longrightarrow> state_user c = Some u \<Longrightarrow> ident_id u = IdObj oid
     \<Longrightarrow> decision_of (checkOwnPost c) = Some Forbidden"
  by (simp add: checkOwnPost_def)

section \<open>Registration\<close>

text \<open>
  C2, at the failing input: two registrations of \<open>alice\<close> in flight on an empty
  collection, resumed in turn. Both lookups find nobody, both saves insert: both
  requests end with the serialized user, and the collection holds two documents with
  the same username.
\<close>

theorem register_race:
  "run demo_lib [0, 1, 0, 1, 0, 1, 0, 1]
       [(oid1, Start (auth_request ''alice'' ''pw123456'')),
        (oid2, Start (auth_request ''alice'' ''pw123456''))] no_users
     = ([(oid1, Done (Inr ((auth_request ''alice'' ''pw123456'')
                            \<lparr>body := Some (JsonBody (serialize alice))\<rparr>))),
         (oid2, Done (Inr ((auth_request ''alice'' ''pw123456'')
                            \<lparr>body := Some (JsonBody (serialize alice2))\<rparr>)))],
        \<lparr>docs = [alice, alice2], online = True\<rparr>)
   \<and> username alice = ''alice'' \<and> username alice2 = ''alice''
   \<and> succeeded (Done (Inr ((auth_request ''alice'' ''pw123456'')
                            \<lparr>body := Some (JsonBody (serialize alice))\<rparr>)))
   \<and> succeeded (Done (Inr ((auth_request ''alice'' ''pw123456'')
                            \<lparr>body := Some (JsonBody (serialize alice2))\<rparr>)))"
  by (simp del: step.simps add: steps)
     (simp add: alice_def alice2_def auth_request_def new_ctx_def)

text \<open>
  C3, at the failing input: registering \<open>alice\<close> again. The current \<open>register\<close> raises
  \<open>ReferenceError\<close> instead of answering 409 (the collection is unchanged); the earlier
  \<open>register\<close> answers 409 and leaves the collection unchanged.
\<close>

theorem register_existing_username:
  "register demo_lib demo_env 1000 oid2 users_alice (auth_request ''alice'' ''anything'')
     = (Inl ReferenceError, users_alice)
   \<and> register_old demo_lib oid2 users_alice (auth_request ''alice'' ''anything'')
     = (Inr ((auth_request ''alice'' ''anything'')\<lparr>status := Some 409\<rparr>), users_alice)"
  using register_old_conflict [OF schema_alice_anything find_alice]
  by (simp add: register_raises)

text \<open>
  C7, at the failing input: the first registration of \<open>alice\<close>. The current \<open>register\<close>
  raises \<open>ReferenceError\<close>: nobody is registered and no cookie is set. The earlier
  \<open>register\<close> registers her and answers with the serialized user, and sets no cookie.
\<close>

theorem register_sets_no_cookie:
  "register demo_lib demo_env 1000 oid1 no_users (auth_request ''alice'' ''pw123456'')
     = (Inl ReferenceError, no_users)
   \<and> register_old demo_lib oid1 no_users (auth_request ''alice'' ''pw123456'')
     = (Inr ((auth_request ''alice'' ''pw123456'')\<lparr>body := Some (JsonBody (serialize alice))\<rparr>),
        users_alice)
   \<and> cookies ((auth_request ''alice'' ''pw123456'')\<lparr>body := Some (JsonBody (serialize alice))\<rparr>)
     = []"
  by (simp add: register_raises register_old_alice) (simp add: auth_request_def new_ctx_def)

section \<open>Tokens\<close>

text \<open>
  C4. Every token that \<open>generateToken\<close> issues at time \<open>t\<close> carries the id, the
  username, the issue time \<open>t\<close> and an expiry seven days after the issue time; under the
  secret it was signed with it verifies, yielding its claims, at every time before the
  expiry, and is \<open>Expired\<close> at every time after it.
\<close>

theorem generateToken_seven_days:
  assumes "generateToken L env t u = Inr tok"
  shows "subjectId (token_claims tok) = toString (user_id u)
       \<and> claim_username (token_claims tok) = username u
       \<and> issuedAt (token_claims tok) = t
       \<and> expiresAt (token_claims tok) = issuedAt (token_claims tok) + 7 * 24 * 60 * 60
       \<and> (\<exists>s. env ''JWT_SECRET'' = Some s
              \<and> (\<forall>now. now < t + 7 * 24 * 60 * 60 \<longrightarrow>
                     jwt_verify (hmac L) tok s now = Verified (token_claims tok))
              \<and> (\<forall>now. t + 7 * 24 * 60 * 60 < now \<longrightarrow>
                     jwt_verify (hmac L) tok s now = Expired))"
proof -
  from assms obtain s where s: "env ''JWT_SECRET'' = Some s" and n: "s \<noteq> []"
    by (auto simp: generateToken_def jwt_sign_def split: option.splits if_splits)
  from generateToken_present [where env = env and s = s and L = L and t = t and u = u] s n assms
  have tok: "tok = \<lparr>token_claims =
                  \<lparr>subjectId = toString (user_id u), claim_username = username u,
                   issuedAt = t, expiresAt = t + 604800\<rparr>,
                token_signature =
                  hmac L s \<lparr>subjectId = toString (user_id u), claim_username = username u,
                            issuedAt = t, expiresAt = t + 604800\<rparr>\<rparr>"
    by simp
  show ?thesis
    using s by (simp add: tok jwt_verify_def)
qed

text \<open>A token for Alice issued at second 1000, checked one second before and after its expiry.\<close>

theorem generateToken_seven_days_witness:
  "\<exists>tok. generateToken demo_lib demo_env 1000 alice = Inr tok
          \<and> claim_username (token_claims tok) = ''alice''
          \<and> issuedAt (token_claims tok) = 1000
          \<and> expiresAt (token_claims tok) = 605800
          \<and> jwt_verify (hmac demo_lib) tok ''s3cr3t'' 605799 = Verified (token_claims tok)
          \<and> jwt_verify (hmac demo_lib) tok ''s3cr3t'' 605801 = Expired"
proof -
  have h: "demo_env ''JWT_SECRET'' = Some ''s3cr3t''" by (simp add: demo_env_def)
  from generateToken_present [where env = demo_env and s = "''s3cr3t''", OF h]
  obtain tok where t: "generateToken demo_lib demo_env 1000 alice = Inr tok"
    by simp
  from generateToken_seven_days [OF t] h
  have "claim_username (token_claims tok) = username alice"
    and "issuedAt (token_claims tok) = 1000"
    and "expiresAt (token_claims tok) = 605800"
    and v: "\<forall>now. now < 1000 + 7 * 24 * 60 * 60 \<longrightarrow>
              jwt_verify (hmac demo_lib) tok ''s3cr3t'' now = Verified (token_claims tok)"
    and x: "\<forall>now. 1000 + 7 * 24 * 60 * 60 < now \<longrightarrow>
              jwt_verify (hmac demo_lib) tok ''s3cr3t'' now = Expired"
    by auto
  moreover have "jwt_verify (hmac demo_lib) tok ''s3cr3t'' 605799 = Verified (token_claims tok)"
    using v by simp
  moreover have "jwt_verify (hmac demo_lib) tok ''s3cr3t'' 605801 = Expired"
    using x by simp
  ultimately show ?thesis using t by (simp add: alice_def)
qed

text \<open>
  C8, as the code has it. \<open>generateToken\<close> hands the signer whatever the environment
  holds under \<open>JWT_SECRET\<close> at the moment of the call, and reads nothing else from the
  environment. Every token issued is signed with that value, which is then present and
  not empty; with the secret absent or empty no token is issued.
\<close>

theorem generateToken_reads_environment:
  "generateToken L env now u
     = jwt_sign (hmac L) \<lparr>payload_id = toString (user_id u), payload_username = username u\<rparr>
         (env ''JWT_SECRET'') \<lparr>expiresIn = Days 7\<rparr> now
   \<and> (env ''JWT_SECRET'' = env' ''JWT_SECRET'' \<longrightarrow>
         generateToken L env now u = generateToken L env' now u)
   \<and> (\<forall>tok. generateToken L env now u = Inr tok \<longrightarrow>
         (\<exists>s. env ''JWT_SECRET'' = Some s \<and> s \<noteq> []
              \<and> token_signature tok = hmac L s (token_claims tok)))
   \<and> (env ''JWT_SECRET'' = None \<or> env ''JWT_SECRET'' = Some [] \<longrightarrow>
         generateToken L env now u = Inl (LibraryError ''secretOrPrivateKey must have a value''))"
proof (intro conjI impI allI)
  show "generateToken L env now u
     = jwt_sign (hmac L) \<lparr>payload_id = toString (user_id u), payload_username = username u\<rparr>
         (env ''JWT_SECRET'') \<lparr>expiresIn = Days 7\<rparr> now"
    by (simp add: generateToken_def)
next
  assume "env ''JWT_SECRET'' = env' ''JWT_SECRET''"
  then show "generateToken L env now u = generateToken L env' now u"
    by (simp add: generateToken_def)
next
  fix tok
  assume "generateToken L env now u = Inr tok"
  then show "\<exists>s. env ''JWT_SECRET'' = Some s \<and> s \<noteq> []
                 \<and> token_signature tok = hmac L s (token_claims tok)"
    by (auto simp: generateToken_def jwt_sign_def Let_def split: option.splits if_splits)
next
  assume "env ''JWT_SECRET'' = None \<or> env ''JWT_SECRET'' = Some []"
  then show "generateToken L env now u = Inl (LibraryError ''secretOrPrivateKey must have a value'')"
    by (rule generateToken_absent)
qed

text \<open>An environment with the secret, and one without it.\<close>

theorem generateToken_reads_environment_witness:
  "demo_env ''JWT_SECRET'' = Some ''s3cr3t''
   \<and> generateToken demo_lib demo_env 1000 alice
     = jwt_sign (hmac demo_lib)
         \<lparr>payload_id = toString (user_id alice), payload_username = username alice\<rparr>
         (Some ''s3cr3t'') \<lparr>expiresIn = Days 7\<rparr> 1000
   \<and> no_env ''JWT_SECRET'' = None
   \<and> generateToken demo_lib no_env 1000 alice
       = Inl (LibraryError ''secretOrPrivateKey must have a value'')"
proof -
  have d: "demo_env ''JWT_SECRET'' = Some ''s3cr3t''" by (simp add: demo_env_def)
  have n: "no_env ''JWT_SECRET'' = None" by (simp add: no_env_def)
  note t = generateToken_reads_environment [of demo_lib demo_env 1000 alice demo_env]
  note a = generateToken_reads_environment [of demo_lib no_env 1000 alice no_env]
  have 1: "generateToken demo_lib demo_env 1000 alice
     = jwt_sign (hmac demo_lib)
         \<lparr>payload_id = toString (user_id alice), payload_username = username alice\<rparr>
         (Some ''s3cr3t'') \<lparr>expiresIn = Days 7\<rparr> 1000"
    using t [THEN conjunct1] d by simp
  have 2: "generateToken demo_lib no_env 1000 alice
       = Inl (LibraryError ''secretOrPrivateKey must have a value'')"
    using a [THEN conjunct2, THEN conjunct2, THEN conjunct2] n by simp
  show ?thesis using d n 1 2 by simp
qed

text \<open>
  C8 as the specification states it fails: the secret is not loaded once when the process
  starts, it is fetched while the request is handled. In a process started with one
  secret, a token issued when the environment holds another is signed with the other,
  and does not verify under the secret of the start.
\<close>

theorem secret_read_at_call_counterexample:
  "startup demo_env = Inr \<lparr>jwt_secret = ''s3cr3t''\<rparr>
   \<and> generateToken demo_lib rotated_env 2000 alice
     = jwt_sign (hmac demo_lib)
         \<lparr>payload_id = ''64b000000000000000000001'', payload_username = ''alice''\<rparr>
         (Some ''r0tated'') \<lparr>expiresIn = Days 7\<rparr> 2000
   \<and> generateToken demo_lib rotated_env 2000 alice
     \<noteq> jwt_sign (hmac demo_lib)
         \<lparr>payload_id = ''64b000000000000000000001'', payload_username = ''alice''\<rparr>
         (Some ''s3cr3t'') \<lparr>expiresIn = Days 7\<rparr> 2000
   \<and> generateToken demo_lib rotated_env 2000 alice
     = Inr \<lparr>token_claims = \<lparr>subjectId = ''64b000000000000000000001'', claim_username = ''alice'',
                             issuedAt = 2000, expiresAt = 606800\<rparr>,
            token_signature = ''r0tated64b000000000000000000001alice''\<rparr>
   \<and> jwt_verify (hmac demo_lib)
        \<lparr>token_claims = \<lparr>subjectId = ''64b000000000000000000001'', claim_username = ''alice'',
                             issuedAt = 2000, expiresAt = 606800\<rparr>,
            token_signature = ''r0tated64b000000000000000000001alice''\<rparr> ''s3cr3t'' 2001
       = InvalidToken"
  by (simp add: startup_def demo_env_def token_rotated)
     (simp add: generateToken_def jwt_sign_def jwt_verify_def rotated_env_def demo_lib_def alice_def oid1_def Let_def)

section \<open>Login and the session check\<close>

text \<open>
  C5. A login with a username the lookup does not find and a login with a known username
  whose password does not verify end alike: the same status 401, and the same body and
  cookies (those the context had before). This holds for both versions of \<open>login\<close>.
\<close>

theorem login_unknown_or_wrong_password:
  assumes "findByUsername db n1 = Inr None"
    and "findByUsername db n2 = Inr (Some u)"
    and "checkPassword L u p2 = Inr False"
  shows "login L env now db (c\<lparr>request_body := \<lparr>req_username = Some n1, req_password = Some p1\<rparr>\<rparr>)
           = Inr (c\<lparr>request_body := \<lparr>req_username = Some n1, req_password = Some p1\<rparr>,
                    status := Some 401\<rparr>)
       \<and> login L env now db (c\<lparr>request_body := \<lparr>req_username = Some n2, req_password = Some p2\<rparr>\<rparr>)
           = Inr (c\<lparr>request_body := \<lparr>req_username = Some n2, req_password = Some p2\<rparr>,
                    status := Some 401\<rparr>)
       \<and> response (c\<lparr>request_body := \<lparr>req_username = Some n1, req_password = Some p1\<rparr>,
                      status := Some 401\<rparr>)
           = response (c\<lparr>request_body := \<lparr>req_username = Some n2, req_password = Some p2\<rparr>,
                         status := Some 401\<rparr>)
       \<and> login_old L db (c\<lparr>request_body := \<lparr>req_username = Some n1, req_password = Some p1\<rparr>\<rparr>)
           = Inr (c\<lparr>request_body := \<lparr>req_username = Some n1, req_password = Some p1\<rparr>,
                    status := Some 401\<rparr>)
       \<and> login_old L db (c\<lparr>request_body := \<lparr>req_username = Some n2, req_password = Some p2\<rparr>\<rparr>)
           = Inr (c\<lparr>request_body := \<lparr>req_username = Some n2, req_password = Some p2\<rparr>,
                    status := Some 401\<rparr>)"
  using assms by (simp add: login_def login_old_def Let_def response_def)

text \<open>Bob, who is not registered, and Alice with a wrong password.\<close>

theorem login_unknown_or_wrong_password_witness:
  "findByUsername users_alice ''bob'' = Inr None
   \<and> findByUsername users_alice ''alice'' = Inr (Some alice)
   \<and> checkPassword demo_lib alice ''wrong'' = Inr False
   \<and> login demo_lib demo_env 1000 users_alice (auth_request ''bob'' ''pw123456'')
       = Inr ((auth_request ''bob'' ''pw123456'')\<lparr>status := Some 401\<rparr>)
   \<and> login demo_lib demo_env 1000 users_alice (auth_request ''alice'' ''wrong'')
       = Inr ((auth_request ''alice'' ''wrong'')\<lparr>status := Some 401\<rparr>)
   \<and> response ((auth_request ''bob'' ''pw123456'')\<lparr>status := Some 401\<rparr>)
       = response ((auth_request ''alice'' ''wrong'')\<lparr>status := Some 401\<rparr>)"
  using login_unknown_or_wrong_password
          [OF find_bob find_alice check_alice_wrong,
           where env = demo_env and now = 1000 and c = new_ctx and ?p1.0 = "''pw123456''"]
    find_bob find_alice check_alice_wrong
  by (simp add: auth_request_def)

text \<open>
  C6. The serialized user never has the key \<open>hashedPassword\<close>, and on a context with no
  body yet, whatever JSON body a registration, a login or the session check (in either
  version) answers with has no such key.
\<close>

theorem no_password_hash_in_responses:
  "\<not> has_key ''hashedPassword'' (serialize u)
   \<and> (body c = None \<longrightarrow>
        (\<forall>c' db' j. register_old L oid db c = (Inr c', db') \<and> body c' = Some (JsonBody j)
             \<longrightarrow> \<not> has_key ''hashedPassword'' j)
      \<and> (\<forall>c' db' j. register_with b L env now oid db c = (Inr c', db')
                       \<and> body c' = Some (JsonBody j)
             \<longrightarrow> \<not> has_key ''hashedPassword'' j)
      \<and> (\<forall>c' j. login_old L db c = Inr c' \<and> body c' = Some (JsonBody j)
             \<longrightarrow> \<not> has_key ''hashedPassword'' j)
      \<and> (\<forall>c' j. login L env now db c = Inr c' \<and> body c' = Some (JsonBody j)
             \<longrightarrow> \<not> has_key ''hashedPassword'' j)
      \<and> (\<forall>c' j. check c = Inr c' \<and> body c' = Some (JsonBody j)
             \<longrightarrow> \<not> has_key ''hashedPassword'' j)
      \<and> (\<forall>c' j. check_old c = Inr c' \<and> body c' = Some (JsonBody j)
             \<longrightarrow> \<not> has_key ''hashedPassword'' j))"
proof (intro conjI impI allI)
  show "\<not> has_key ''hashedPassword'' (serialize u)" by (rule serialize_no_hash)
next
  fix c' db' j
  assume "body c = None"
    and "register_old L oid db c = (Inr c', db') \<and> body c' = Some (JsonBody j)"
  then show "\<not> has_key ''hashedPassword'' j"
    using register_old_body [of L oid db c c' db'] serialize_no_hash by auto
next
  fix c' db' j
  assume "body c = None"
    and "register_with b L env now oid db c = (Inr c', db') \<and> body c' = Some (JsonBody j)"
  then show "\<not> has_key ''hashedPassword'' j"
    using register_with_body [of b L env now oid db c c' db'] serialize_no_hash by auto
next
  fix c' j
  assume "body c = None" and "login_old L db c = Inr c' \<and> body c' = Some (JsonBody j)"
  then show "\<not> has_key ''hashedPassword'' j"
    using login_old_body [of L db c c'] serialize_no_hash by auto
next
  fix c' j
  assume "body c = None" and "login L env now db c = Inr c' \<and> body c' = Some (JsonBody j)"
  then show "\<not> has_key ''hashedPassword'' j"
    using login_body [of L env now db c c'] serialize_no_hash by auto
next
  fix c' j
  assume "body c = None" and "check c = Inr c' \<and> body c' = Some (JsonBody j)"
  then show "\<not> has_key ''hashedPassword'' j"
    using check_body [of c c'] identity_no_hash by auto
next
  fix c' j
  assume "body c = None" and "check_old c = Inr c' \<and> body c' = Some (JsonBody j)"
  then show "\<not> has_key ''hashedPassword'' j"
    by (auto simp: check_old_def)
qed

text \<open>Alice, whose document holds a hash, logs in: the body is her serialized user.\<close>

theorem no_password_hash_in_responses_witness:
  "body (auth_request ''alice'' ''pw123456'') = None
   \<and> hashedPassword alice = Some ''$2b$10$pw123456''
   \<and> has_key ''hashedPassword'' (toJSON alice)
   \<and> login_old demo_lib users_alice (auth_request ''alice'' ''pw123456'')
       = Inr ((auth_request ''alice'' ''pw123456'')\<lparr>body := Some (JsonBody (serialize alice))\<rparr>)
   \<and> \<not> has_key ''hashedPassword'' (serialize alice)"
proof -
  let ?c = "auth_request ''alice'' ''pw123456''"
  have b: "body ?c = None"
    by (simp add: auth_request_def new_ctx_def)
  have k: "has_key ''hashedPassword'' (toJSON alice)"
    by (simp add: has_key_def toJSON_def alice_def)
  have r: "body (?c\<lparr>body := Some (JsonBody (serialize alice))\<rparr>) = Some (JsonBody (serialize alice))"
    by simp
  from no_password_hash_in_responses
         [of alice ?c demo_lib oid1 users_alice Uninitialized demo_env 1000] b
  have "\<forall>c' j. login_old demo_lib users_alice ?c = Inr c' \<and> body c' = Some (JsonBody j)
             \<longrightarrow> \<not> has_key ''hashedPassword'' j"
    by blast
  with login_old_alice r have "\<not> has_key ''hashedPassword'' (serialize alice)"
    by blast
  then show ?thesis using b k login_old_alice by (simp add: alice_def)
qed

text \<open>
  C9, as the code has it. On a context with no status yet, \<open>login\<close> answers 401 exactly
  when the credentials fail, and throws a 500 exactly when the lookup, the comparison or
  the signing rejects; in every other case it succeeds: the body is the serialized user
  and the token is set as the cookie.
\<close>

theorem login_outcomes:
  assumes "status c = None"
  shows "((\<exists>c'. login L env now db c = Inr c' \<and> status c' = Some 401)
            = credentials_fail L db (request_body c))
       \<and> ((login L env now db c = Inl (HttpError 500))
            = internal_failure L env now db (request_body c))
       \<and> (\<not> credentials_fail L db (request_body c)
            \<and> \<not> internal_failure L env now db (request_body c) \<longrightarrow>
            (\<exists>n u tok. req_username (request_body c) = Some n
               \<and> findByUsername db n = Inr (Some u)
               \<and> generateToken L env now u = Inr tok
               \<and> login L env now db c
                   = Inr (c\<lparr>body := Some (JsonBody (serialize u)),
                            cookies := cookies c @ [(''access_token'',
                              \<lparr>cookie_value = Some tok, maxAge = Some 604800000,
                               httpOnly = Some True\<rparr>)]\<rparr>)))"
  using login_401 [OF assms] login_500 login_success by blast

text \<open>Alice logs in with her password.\<close>

theorem login_outcomes_witness:
  "status (auth_request ''alice'' ''pw123456'') = None
   \<and> \<not> credentials_fail demo_lib users_alice (request_body (auth_request ''alice'' ''pw123456''))
   \<and> \<not> internal_failure demo_lib demo_env 1000 users_alice
         (request_body (auth_request ''alice'' ''pw123456''))
   \<and> (\<exists>tok. generateToken demo_lib demo_env 1000 alice = Inr tok
         \<and> login demo_lib demo_env 1000 users_alice (auth_request ''alice'' ''pw123456'')
            = Inr ((auth_request ''alice'' ''pw123456'')
                     \<lparr>body := Some (JsonBody (serialize alice)),
                      cookies := [(''access_token'',
                         \<lparr>cookie_value = Some tok, maxAge = Some 604800000,
                          httpOnly = Some True\<rparr>)]\<rparr>))"
proof -
  let ?c = "auth_request ''alice'' ''pw123456''"
  have s: "status ?c = None" by (simp add: auth_request_def new_ctx_def)
  have b: "request_body ?c = \<lparr>req_username = Some ''alice'', req_password = Some ''pw123456''\<rparr>"
    by (simp add: auth_request_def)
  have k: "cookies ?c = []" by (simp add: auth_request_def new_ctx_def)
  have f: "\<not> credentials_fail demo_lib users_alice (request_body ?c)"
    by (simp add: b credentials_fail_def find_alice check_alice_right)
  have g: "\<not> isl (generateToken demo_lib demo_env 1000 alice)"
    by (simp add: generateToken_def jwt_sign_def demo_env_def Let_def)
  have i: "\<not> internal_failure demo_lib demo_env 1000 users_alice (request_body ?c)"
    using g by (simp add: b internal_failure_def find_alice check_alice_right)
  from login_outcomes [OF s, of demo_lib demo_env 1000 users_alice] f i
  obtain n u tok where "req_username (request_body ?c) = Some n"
      and "findByUsername users_alice n = Inr (Some u)"
      and "generateToken demo_lib demo_env 1000 u = Inr tok"
      and "login demo_lib demo_env 1000 users_alice ?c
             = Inr (?c\<lparr>body := Some (JsonBody (serialize u)),
                      cookies := cookies ?c @ [(''access_token'',
                         \<lparr>cookie_value = Some tok, maxAge = Some 604800000,
                          httpOnly = Some True\<rparr>)]\<rparr>)"
    by blast
  then show ?thesis using s f i k by (auto simp: b find_alice)
qed

text \<open>
  C9 as the specification states it fails when the database cannot be reached: Alice is
  registered and her password verifies, so her credentials do not fail, and the login
  neither answers 401 nor succeeds: it throws a 500.
\<close>

theorem login_internal_failure_counterexample:
  "find (\<lambda>d. username d = ''alice'') (docs users_offline) = Some alice
   \<and> checkPassword demo_lib alice ''pw123456'' = Inr True
   \<and> \<not> credentials_fail demo_lib users_offline (request_body (auth_request ''alice'' ''pw123456''))
   \<and> login demo_lib demo_env 1000 users_offline (auth_request ''alice'' ''pw123456'')
       = Inl (HttpError 500)"
  by (simp add: credentials_fail_def login_def Let_def falsy_def auth_request_def new_ctx_def
      findByUsername_def findOne_def users_offline_def check_alice_right)
     (simp add: alice_def)

section \<open>Deleting a post\<close>

text \<open>
  C10. For every id: whenever the removal does not throw, \<open>remove\<close> answers 204 and the
  collection is the one the removal left; when no post has the requested id, nothing
  was removed and the collection is unchanged, and the answer is 204 all the same. The
  removal does not throw exactly when the database is reached and the id casts.
\<close>

theorem remove_no_content:
  "(\<forall>removed posts'. findByIdAndRemove posts (params_id c) = Inr (removed, posts') \<longrightarrow>
       remove posts c = (Inr (c\<lparr>status := Some 204\<rparr>), posts')
       \<and> (\<not> list_ex (\<lambda>p. Some (post_id p) = cast_ObjectId (params_id c)) (docs posts)
            \<longrightarrow> removed = None \<and> posts' = posts))
   \<and> ((\<exists>removed posts'. findByIdAndRemove posts (params_id c) = Inr (removed, posts'))
        = (online posts
           \<and> (length (params_id c) = 12
               \<or> (length (params_id c) = 24 \<and> list_all is_hex (params_id c)))))"
proof (intro conjI allI impI)
  fix removed posts'
  assume r: "findByIdAndRemove posts (params_id c) = Inr (removed, posts')"
  then show "remove posts c = (Inr (c\<lparr>status := Some 204\<rparr>), posts')"
    by (simp add: remove_def)
  assume absent: "\<not> list_ex (\<lambda>p. Some (post_id p) = cast_ObjectId (params_id c)) (docs posts)"
  from r obtain oid where oid: "cast_ObjectId (params_id c) = Some oid"
    and rm: "removed = find (\<lambda>p. post_id p = oid) (docs posts)"
    and p: "posts' = posts\<lparr>docs := remove_first (\<lambda>p. post_id p = oid) (docs posts)\<rparr>"
    by (auto simp: findByIdAndRemove_def split: if_splits option.splits)
  from absent oid have none: "\<not> list_ex (\<lambda>p. post_id p = oid) (docs posts)"
    by (simp add: list_ex_iff)
  show "removed = None" using rm none by (simp add: find_absent)
  show "posts' = posts" using p none by (simp add: remove_first_absent)
next
  show "(\<exists>removed posts'. findByIdAndRemove posts (params_id c) = Inr (removed, posts'))
        = (online posts
           \<and> (length (params_id c) = 12
               \<or> (length (params_id c) = 24 \<and> list_all is_hex (params_id c))))"
    by (rule findByIdAndRemove_resolves)
qed

text \<open>
  Deleting from a collection that holds one post: an id of 24 digits and an id of 12
  characters that no post has, and the id of the post.
\<close>

theorem remove_no_content_witness:
  "findByIdAndRemove posts_bob (params_id (new_ctx\<lparr>params_id := ''64B0000000000000000000AB''\<rparr>))
     = Inr (None, posts_bob)
   \<and> remove posts_bob (new_ctx\<lparr>params_id := ''64B0000000000000000000AB''\<rparr>)
     = (Inr (new_ctx\<lparr>params_id := ''64B0000000000000000000AB'', status := Some 204\<rparr>), posts_bob)
   \<and> findByIdAndRemove posts_bob (params_id (new_ctx\<lparr>params_id := ''abcdefghijkl''\<rparr>))
     = Inr (None, posts_bob)
   \<and> remove posts_bob (new_ctx\<lparr>params_id := ''abcdefghijkl''\<rparr>)
     = (Inr (new_ctx\<lparr>params_id := ''abcdefghijkl'', status := Some 204\<rparr>), posts_bob)
   \<and> findByIdAndRemove posts_bob (params_id (new_ctx\<lparr>params_id := ''64b0000000000000000000aa''\<rparr>))
     = Inr (Some bobs_post, posts_bob\<lparr>docs := []\<rparr>)
   \<and> remove posts_bob (new_ctx\<lparr>params_id := ''64b0000000000000000000aa''\<rparr>)
     = (Inr (new_ctx\<lparr>params_id := ''64b0000000000000000000aa'', status := Some 204\<rparr>),
        posts_bob\<lparr>docs := []\<rparr>)"
proof -
  let ?c = "new_ctx\<lparr>params_id := ''64B0000000000000000000AB''\<rparr>"
  let ?d = "new_ctx\<lparr>params_id := ''abcdefghijkl''\<rparr>"
  let ?e = "new_ctx\<lparr>params_id := ''64b0000000000000000000aa''\<rparr>"
  have h: "findByIdAndRemove posts_bob (params_id ?c) = Inr (None, posts_bob)"
    by (simp add: findByIdAndRemove_def cast_demo posts_bob_def bobs_post_def)
  have k: "findByIdAndRemove posts_bob (params_id ?d) = Inr (None, posts_bob)"
    by (simp add: findByIdAndRemove_def cast_twelve posts_bob_def bobs_post_def)
  have m: "findByIdAndRemove posts_bob (params_id ?e) = Inr (Some bobs_post, posts_bob\<lparr>docs := []\<rparr>)"
    by (simp add: findByIdAndRemove_def cast_ObjectId_def is_hex_def lower_hex_def posts_bob_def bobs_post_def)
  from remove_no_content [of posts_bob ?c] h
  have 1: "remove posts_bob ?c = (Inr (?c\<lparr>status := Some 204\<rparr>), posts_bob)" by blast
  from remove_no_content [of posts_bob ?d] k
  have 2: "remove posts_bob ?d = (Inr (?d\<lparr>status := Some 204\<rparr>), posts_bob)" by blast
  from remove_no_content [of posts_bob ?e] m
  have 3: "remove posts_bob ?e = (Inr (?e\<lparr>status := Some 204\<rparr>), posts_bob\<lparr>docs := []\<rparr>)" by blast
  show ?thesis using h k m 1 2 3 by simp
qed

end
